theory Spec2Isabelle
  imports Main "HOL-Library.Sublist"
begin

section \<open>The Termo terminal client (src/Client/client.py)\<close>

text \<open>
  Python strings are modelled as \<^typ>\<open>string\<close>, one \<^typ>\<open>char\<close> per code point; the
  fixed texts of the client that are embedded here only use code points below 256
  (for instance U+00FA, u with acute, is \<open>CHR 0xFA\<close>, and ESC is \<open>CHR 0x1B\<close>).
\<close>

subsection \<open>Exceptions\<close>

text \<open>
  Every exception the modelled code can raise is a value. \<open>SocketError\<close> is
  \<open>socket.error(msg)\<close> as raised by \<open>__connect_to_server\<close>; \<open>SystemExit\<close> is what
  \<open>exit(0)\<close> and \<open>sys.exit(0)\<close> raise.
\<close>

datatype error =
    TypeError
  | IndexError
  | KeyError string
  | AttributeError
  | ValueError string
  | EOFError
  | OSError
  | JSONDecodeError
  | UnicodeDecodeError
  | SocketError string
  | SystemExit int

subsection \<open>Formatting integers\<close>

text \<open>\<open>f"{n}"\<close> for a Python int: its decimal numeral, with a leading minus sign.\<close>

definition digit_char :: "nat \<Rightarrow> char" where
  "digit_char d = ''0123456789'' ! d"

fun str_nat :: "nat \<Rightarrow> string" where
  "str_nat n = (if n < 10 then [digit_char n] else str_nat (n div 10) @ [digit_char (n mod 10)])"

definition str_int :: "int \<Rightarrow> string" where
  "str_int i = (if i < 0 then CHR ''-'' # str_nat (nat (- i)) else str_nat (nat i))"

subsection \<open>\<open>__return_attempts\<close>\<close>

text \<open>
  Modelled from the spec: the word-history stack \<open>LinkedStack\<close> of the module \<open>utils\<close> is
  not among the sources. It is a last-in-first-out container of the rendered guesses with
  push (\<open>stack_up\<close>), \<open>clear\<close>, a size query (\<open>len\<close>) and an emptiness test; here a
  list with the top of the stack at the head; the stack is true in \<open>if self.__words_stack:\<close>
  when it is not empty. An entry is whatever \<open>__format_output\<close> returned, so it may be
  \<open>None\<close>.
\<close>

type_synonym linked_stack = "string option list"

definition stack_up :: "string option \<Rightarrow> linked_stack \<Rightarrow> linked_stack" where
  "stack_up item s = item # s"

definition clear :: "linked_stack \<Rightarrow> linked_stack" where
  "clear s = []"

definition len :: "linked_stack \<Rightarrow> nat" where
  "len s = length s"

text \<open>
  \<^verbatim>\<open>
  def __return_attempts(self, remaining_attempts) -> str:
      if remaining_attempts >= 0:
          return f"Tentativas Restantes: {remaining_attempts}"
      return f"Numero de tentativas ate agora: {len(self.__words_stack)}"
  \<close>
  (the source text has U+00FA in "Numero" and U+00E9 in "ate").
  The argument is what a caller read with \<open>.get("remaining_attempts")\<close>: an int, or
  \<open>None\<close> when the key is absent. \<open>None >= 0\<close> raises \<open>TypeError\<close>.
\<close>

definition return_attempts :: "int option \<Rightarrow> linked_stack \<Rightarrow> error + string" where
  "return_attempts remaining_attempts words_stack =
     (case remaining_attempts of
        None \<Rightarrow> Inl TypeError
      | Some n \<Rightarrow>
          if n \<ge> 0 then Inr (''Tentativas Restantes: '' @ str_int n)
          else Inr (''N'' @ [CHR 0xFA] @ ''mero de tentativas at'' @ [CHR 0xE9] @ '' agora: ''
                    @ str_int (int (len words_stack))))"

subsection \<open>\<open>__format_output\<close>\<close>

text \<open>
  \<^verbatim>\<open>
  if word and format_instructions:
      output = ''
      for index, items in enumerate(format_instructions):
          if items == 2:   output += "\033[92m" + word[index] + "\033[0m"
          elif items == 1: output += "\033[93m" + word[index] + "\033[0m"
          else:            output += "\033[90m" + word[index] + "\033[0m"
      return output
  return
  \<close>
  \<open>word[index]\<close> raises \<open>IndexError\<close> when \<open>index\<close> is not below the length of the word.
\<close>

definition esc :: "string \<Rightarrow> string" where
  "esc code = CHR 0x1B # CHR ''['' # code"

definition wrap_letter :: "int \<Rightarrow> char \<Rightarrow> string" where
  "wrap_letter items c =
     (if items = 2 then esc ''92m'' @ [c] @ esc ''0m''
      else if items = 1 then esc ''93m'' @ [c] @ esc ''0m''
      else esc ''90m'' @ [c] @ esc ''0m'')"

text \<open>The loop over \<open>enumerate(format_instructions)\<close>, from position \<open>index\<close> on.\<close>

fun format_loop :: "string \<Rightarrow> nat \<Rightarrow> int list \<Rightarrow> string \<Rightarrow> error + string" where
  "format_loop word index [] output = Inr output"
| "format_loop word index (items # rest) output =
     (if index < length word
      then format_loop word (Suc index) rest (output @ wrap_letter items (word ! index))
      else Inl IndexError)"

definition format_output :: "string option \<Rightarrow> int list option \<Rightarrow> error + string option" where
  "format_output word format_instructions =
     (case (word, format_instructions) of
        (Some w, Some enc) \<Rightarrow>
          if w \<noteq> [] \<and> enc \<noteq> []
          then (case format_loop w 0 enc [] of Inl e \<Rightarrow> Inl e | Inr output \<Rightarrow> Inr (Some output))
          else Inr None
      | _ \<Rightarrow> Inr None)"


subsection \<open>The client's state and what it does to the outside\<close>

datatype GameStatus = NO_GAME | GAME_IN_PROGRESS | GAME_FINISHED

text \<open>
  What the client does at the terminal, in order. \<open>Print s\<close> is \<open>print(s)\<close>, \<open>Prompt s\<close>
  the prompt written by \<open>input(s)\<close>, \<open>Sleep n\<close> a completed \<open>sleep(n)\<close>. The other
  events are prints of text that is not a plain string of the model:
  \<^item> \<open>PrintWin stack attempts\<close>: the message of status 202, a trophy, "Parabens! Palavra
    Correta!", "Lista de Palavras Anteriores:", the rendering of the stack and the
    attempts line;
  \<^item> \<open>PrintWordList stack\<close>: "Lista de Palavras:" and the rendering of the stack;
  \<^item> \<open>PrintMenu rows\<close>: the PrettyTable of the menu;
  \<^item> \<open>PrintScores title names values total\<close>: the PrettyTable of the scores;
  \<^item> \<open>PrintError e\<close>: \<open>print(str(e))\<close> for a caught exception.
  The type \<open>'n\<close> is that of the scores, which the client only passes on to the table.
\<close>

datatype 'n event =
    Print string
  | Prompt string
  | Sleep nat
  | PrintWin linked_stack string
  | PrintWordList linked_stack
  | PrintMenu "(string \<times> string) list"
  | PrintScores string "string list" "'n list" "'n option"
  | PrintError error

text \<open>
  The fields of \<open>Client\<close> that the modelled methods read or write, and the outside world
  they act on: \<open>scores_fields\<close> are the field names held by the table object
  \<open>self.__scores_table\<close> (none after \<open>__init__\<close>), \<open>sock_closed\<close> records
  \<open>self.__sock.close()\<close>, \<open>stdin\<close> the lines still to be read by \<open>input\<close> (\<open>input\<close>
  raises \<open>EOFError\<close> when there is none), \<open>sent\<close> the request bodies passed to
  \<open>__send_requisition\<close> so far, \<open>out\<close> the terminal.
\<close>

record 'n client =
  game_status :: GameStatus
  user_name :: "string option"
  words_stack :: linked_stack
  scores_fields :: "string list"
  sock_closed :: bool
  stdin :: "string list"
  sent :: "(string \<times> string option) list"
  out :: "'n event list"

text \<open>The state after \<open>__init__\<close> and the nickname prompt of \<open>run\<close>.\<close>

definition init_client :: "string \<Rightarrow> string list \<Rightarrow> 'n client" where
  "init_client name lines =
     \<lparr>game_status = NO_GAME, user_name = Some name, words_stack = [], scores_fields = [],
      sock_closed = False, stdin = lines, sent = [], out = []\<rparr>"

definition emit :: "'n event \<Rightarrow> 'n client \<Rightarrow> 'n client" where
  "emit e st = st\<lparr>out := out st @ [e]\<rparr>"

definition input_py :: "string \<Rightarrow> 'n client \<Rightarrow> (error + string) \<times> 'n client" where
  "input_py prompt st =
     (case stdin st of
        [] \<Rightarrow> (Inl EOFError, emit (Prompt prompt) st)
      | l # ls \<Rightarrow> (Inr l, (emit (Prompt prompt) st)\<lparr>stdin := ls\<rparr>))"

text \<open>\<open>f"{x}"\<close> for a value that is a string or \<open>None\<close>.\<close>

definition str_opt :: "string option \<Rightarrow> string" where
  "str_opt x = (case x of None \<Rightarrow> ''None'' | Some s \<Rightarrow> s)"

text \<open>
  The response body is the dict parsed from the JSON text. A key of it is absent, or
  present with the value \<open>null\<close> (\<open>None\<close> in Python), or present with a value.
  \<open>dict_get\<close> is \<open>response_data.get(key)\<close>, which gives \<open>None\<close> for an absent key;
  \<open>dict_item\<close> is \<open>response_data[key]\<close>, which raises \<open>KeyError\<close> for an absent key.
\<close>

datatype 'a field = Absent | Null | Value 'a

definition dict_get :: "'a field \<Rightarrow> 'a option" where
  "dict_get f = (case f of Absent \<Rightarrow> None | Null \<Rightarrow> None | Value v \<Rightarrow> Some v)"

definition dict_item :: "string \<Rightarrow> 'a field \<Rightarrow> error + 'a option" where
  "dict_item key f =
     (case f of Absent \<Rightarrow> Inl (KeyError key) | Null \<Rightarrow> Inr None | Value v \<Rightarrow> Inr (Some v))"

record 'n response =
  r_status_code :: "int field"
  r_remaining_attempts :: "int field"
  r_word_encoded :: "int list field"
  r_secret_word :: "string field"
  r_rounds_scores :: "(string \<times> 'n) list field"
  r_total_score :: "'n field"

text \<open>The keyword arguments \<open>**extra_info\<close>; \<open>extra_info.get(key)\<close> of a missing one is \<open>None\<close>.\<close>

record 'n extra_info =
  x_remaining_attempts :: "int option"
  x_format_output :: "string option"
  x_secret_word :: "string option"
  x_player_name :: "string option"
  x_rounds_scores :: "(string \<times> 'n) list option"
  x_total_score :: "'n option"

definition no_extra :: "'n extra_info" where
  "no_extra = \<lparr>x_remaining_attempts = None, x_format_output = None, x_secret_word = None,
               x_player_name = None, x_rounds_scores = None, x_total_score = None\<rparr>"

subsection \<open>Rendering\<close>

text \<open>
  \<open>__render_menu_table\<close>: rows 3 to 5 only when the status is not \<open>NO_GAME\<close>. The table
  object \<open>self.__table\<close> is used again at every call, always with the same two field
  names, which PrettyTable accepts.
\<close>

definition render_menu_table :: "'n client \<Rightarrow> 'n client" where
  "render_menu_table st =
     (let rows = [(''1'', ''Come'' @ [CHR 0xE7] @ ''ar um jogo''), (''2'', ''Sair do jogo atual'')];
          rows' = (if game_status st \<noteq> NO_GAME
                   then rows @ [(''3'', ''Verificar palavra''),
                                (''4'', ''Listar palavras digitadas nesta rodada''),
                                (''5'', ''Reiniciar o jogo atual'')]
                   else rows)
      in emit (PrintMenu rows') (emit (Print []) st))"

text \<open>
  \<^verbatim>\<open>
  self.__scores_table.clear_rows()
  self.__scores_table.title = f"Pontuacao de {self.__user_name}"
  self.__scores_table.field_names = list(rounds_scores.keys())
  self.__scores_table.add_row(list(rounds_scores.values()))
  self.__scores_table.add_column("Pontuacao Total", [total_score])
  ...
  print("")
  print(self.__scores_table)
  \<close>
  \<open>rounds_scores.keys()\<close> raises \<open>AttributeError\<close> when \<open>rounds_scores\<close> is \<open>None\<close>. The
  table object is the one made in \<open>__init__\<close>: \<open>clear_rows\<close> removes its rows and keeps
  its field names, and \<open>add_column\<close> appends the name of the total column to them.
  PrettyTable (a library, not part of the repository) refuses the assignment to
  \<open>field_names\<close> with \<open>ValueError\<close> when the table has field names and the new list has
  another length, and when the new names are not distinct (the keys of a dict are).
\<close>

definition total_column :: string where
  "total_column = ''Pontua'' @ [CHR 0xE7, CHR 0xE3] @ ''o Total''"

definition render_score_table ::
  "(string \<times> 'n) list option \<Rightarrow> 'n option \<Rightarrow> 'n client \<Rightarrow> (error + unit) \<times> 'n client" where
  "render_score_table rounds_scores total_score st =
     (case rounds_scores of
        None \<Rightarrow> (Inl AttributeError, st)
      | Some rs \<Rightarrow>
          (let field_names = map fst rs
           in if scores_fields st \<noteq> [] \<and> length field_names \<noteq> length (scores_fields st)
              then (Inl (ValueError (''Field name list has incorrect number of values, (actual) ''
                                     @ str_nat (length field_names) @ ''!=''
                                     @ str_nat (length (scores_fields st)) @ '' (expected)'')), st)
              else if \<not> distinct field_names
              then (Inl (ValueError ''Field names must be unique''), st)
              else (Inr (),
                    emit (PrintScores (''Pontua'' @ [CHR 0xE7, CHR 0xE3] @ ''o de ''
                                       @ str_opt (user_name st))
                            field_names (map snd rs) total_score)
                      (emit (Print [])
                         (st\<lparr>scores_fields := field_names @ [total_column]\<rparr>)))))"

text \<open>
  \<open>__secret_word_animation\<close>: the mask of underscores gets one more letter per line,
  with a pause of one second after each. Iterating over \<open>None\<close> raises \<open>TypeError\<close>.
\<close>

definition reveal_step :: "string \<Rightarrow> nat \<Rightarrow> string \<times> 'n event list \<Rightarrow> string \<times> 'n event list" where
  "reveal_step word i acc =
     (let transformed_word = (fst acc)[i := word ! i]
      in (transformed_word, snd acc @ [Print transformed_word, Sleep 1]))"

definition reveal_message :: string where
  "reveal_message =
     ''Voc'' @ [CHR 0xEA] @ '' n'' @ [CHR 0xE3] @ ''o conseguiu acertar a palavra secreta!''
     @ [CHR 0x0A] @ ''A palavra era:'' @ [CHR 0x0A]"

definition reveal_events :: "string \<Rightarrow> 'n event list" where
  "reveal_events word =
     snd (fold (reveal_step word) [0..<length word] (replicate (length word) CHR ''_'', []))"

definition secret_word_animation :: "string option \<Rightarrow> 'n client \<Rightarrow> (error + unit) \<times> 'n client" where
  "secret_word_animation word st =
     (case word of
        None \<Rightarrow> (Inl TypeError, st)
      | Some w \<Rightarrow>
          (let st1 = emit (Print reveal_message) st
           in (Inr (), st1\<lparr>out := out st1 @ reveal_events w\<rparr>)))"

subsection \<open>\<open>__handle_successful_cases\<close>, \<open>__handle_error_cases\<close>, \<open>__render_response\<close>\<close>

definition handle_successful_cases ::
  "int \<Rightarrow> 'n extra_info \<Rightarrow> 'n client \<Rightarrow> (error + unit) \<times> 'n client" where
  "handle_successful_cases response_status extra st =
     (let remaining_attempts = x_remaining_attempts extra;
          format_output = x_format_output extra;
          secret_word = x_secret_word extra;
          player_name = x_player_name extra
      in
      if response_status = 200 then (Inr (), emit (Print ''Jogo Iniciado com Sucesso'') st)
      else if response_status = 201 then (Inr (), emit (Print ''Jogo Finalizado com Sucesso'') st)
      else if response_status = 202 then
        (case return_attempts remaining_attempts (words_stack st) of
           Inl e \<Rightarrow> (Inl e, st)
         | Inr attempts \<Rightarrow>
             (case render_score_table (x_rounds_scores extra) (x_total_score extra)
                     (emit (PrintWin (words_stack st) attempts) st) of
                (Inl e, st') \<Rightarrow> (Inl e, st')
              | (Inr u, st') \<Rightarrow> (Inr (), st'\<lparr>words_stack := clear (words_stack st')\<rparr>)))
      else if response_status = 203 then
        (let st1 = st\<lparr>words_stack := stack_up format_output (words_stack st)\<rparr>
         in case return_attempts remaining_attempts (words_stack st1) of
              Inl e \<Rightarrow> (Inl e, st1)
            | Inr attempts \<Rightarrow>
                (let st2 = emit (Print ([CHR 0x0A] @ ''Palavra Incorreta!'' @ [CHR 0x0A]
                                        @ str_opt format_output @ [CHR 0x0A] @ attempts)) st1
                 in if remaining_attempts = Some 0
                    then (case secret_word_animation secret_word
                                 (st2\<lparr>words_stack := clear (words_stack st2)\<rparr>) of
                            (Inl e, st3) \<Rightarrow> (Inl e, st3)
                          | (Inr u, st3) \<Rightarrow>
                              render_score_table (x_rounds_scores extra) (x_total_score extra) st3)
                    else (Inr (), st2)))
      else if response_status = 204 then
        (if words_stack st \<noteq> []
         then (Inr (), emit (PrintWordList (words_stack st)) st)
         else (Inr (), emit (Print (''N'' @ [CHR 0xE3] @ ''o h'' @ [CHR 0xE1]
                                    @ '' palavras inseridas nesta rodada!'')) st))
      else if response_status = 205 then
        (Inr (), (emit (Print ''Jogo reiniciado com sucesso'') st)\<lparr>words_stack := clear (words_stack st)\<rparr>)
      else if response_status = 206 then
        (Inr (), emit (Print (''Jogo Continuado com Sucesso, Boa Sorte na Pr'' @ [CHR 0xF3]
                              @ ''xima Rodada '' @ str_opt player_name @ ''!'')) st)
      else (Inr (), st))"

text \<open>
  The messages of \<open>__handle_error_cases\<close> that end with the attempts line:
  \<open>print(f"<text>\n{self.__return_attempts(remaining_attempts)}")\<close>.
\<close>

definition print_with_attempts :: "string \<Rightarrow> int option \<Rightarrow> 'n client \<Rightarrow> (error + unit) \<times> 'n client" where
  "print_with_attempts text remaining_attempts st =
     (case return_attempts remaining_attempts (words_stack st) of
        Inl e \<Rightarrow> (Inl e, st)
      | Inr attempts \<Rightarrow> (Inr (), emit (Print (text @ [CHR 0x0A] @ attempts)) st))"

definition invalid_command_message :: string where
  "invalid_command_message = esc ''91m'' @ '' Comando inv'' @ [CHR 0xE1] @ ''lido'' @ esc ''0m''"

text \<open>The truth value of \<open>if remaining_attempts:\<close> for an int or \<open>None\<close>.\<close>

definition truthy :: "int option \<Rightarrow> bool" where
  "truthy x = (case x of None \<Rightarrow> False | Some n \<Rightarrow> n \<noteq> 0)"

definition handle_error_cases ::
  "int \<Rightarrow> 'n extra_info \<Rightarrow> 'n client \<Rightarrow> (error + unit) \<times> 'n client" where
  "handle_error_cases response_status extra st =
     (let remaining_attempts = x_remaining_attempts extra
      in
      if response_status = 400 then (Inr (), emit (Print (''Jogo j'' @ [CHR 0xE1] @ '' iniciado'')) st)
      else if response_status = 401 then
        (Inr (), emit (Print (''Jogo n'' @ [CHR 0xE3] @ ''o iniciado'')) st)
      else if response_status = 402 then
        print_with_attempts ([CHR 0xC9] @ '' necess'' @ [CHR 0xE1] @ ''rio digitar uma palavra'')
          remaining_attempts st
      else if response_status = 403 then
        print_with_attempts ''A palavra deve ter 5 letras'' remaining_attempts st
      else if response_status = 404 then
        print_with_attempts (''A palavra n'' @ [CHR 0xE3] @ ''o existe no dicion'' @ [CHR 0xE1] @ ''rio'')
          remaining_attempts st
      else if response_status = 405 then
        print_with_attempts (''Palavra j'' @ [CHR 0xE1] @ '' utilizada'') remaining_attempts st
      else if response_status = 499 then
        (let st1 = emit (Print invalid_command_message) st
         in if truthy remaining_attempts
            then (case return_attempts remaining_attempts (words_stack st1) of
                    Inl e \<Rightarrow> (Inl e, st1)
                  | Inr attempts \<Rightarrow> (Inr (), emit (Print attempts) st1))
            else (Inr (), st1))
      else (Inr (), st))"

definition render_response ::
  "int \<Rightarrow> 'n extra_info \<Rightarrow> 'n client \<Rightarrow> (error + unit) \<times> 'n client" where
  "render_response response_status extra st =
     (if 200 \<le> response_status \<and> response_status < 400
      then handle_successful_cases response_status extra st
      else if 400 \<le> response_status \<and> response_status < 500
      then handle_error_cases response_status extra st
      else (Inr (), st))"

subsection \<open>\<open>__process_user_command\<close>\<close>

text \<open>
  \<open>str.lower()\<close> on code points below 256: the letters A to Z and the upper-case letters
  of Latin-1 (U+00C0 to U+00DE without the multiplication sign U+00D7) move up by 32.
\<close>

definition lower_char :: "char \<Rightarrow> char" where
  "lower_char c =
     (let n = (of_char c :: nat)
      in if (65 \<le> n \<and> n \<le> 90) \<or> (192 \<le> n \<and> n \<le> 222 \<and> n \<noteq> 215) then char_of (n + 32) else c)"

definition lower :: "string \<Rightarrow> string" where
  "lower s = map lower_char s"

definition process_user_command ::
  "string \<Rightarrow> 'n client \<Rightarrow> (error + string \<times> string option) \<times> 'n client" where
  "process_user_command user_command st =
     (if user_command = ''1'' then (Inr (''start_game'', user_name st), st)
      else if user_command = ''2'' then (Inr (''exit_game'', None), st)
      else if user_command = ''3'' \<and> game_status st = GAME_IN_PROGRESS then
        (case input_py ''Digite uma palavra: '' st of
           (Inl e, st') \<Rightarrow> (Inl e, st')
         | (Inr user_input, st') \<Rightarrow> (Inr (''check_word'', Some (lower user_input)), st'))
      else if user_command = ''4'' \<and> game_status st = GAME_IN_PROGRESS then
        (Inr (''list_words'', None), st)
      else if user_command = ''5'' \<and> game_status st = GAME_IN_PROGRESS then
        (Inr (''restart_game'', user_name st), st)
      else (Inl (ValueError (''Comando inv'' @ [CHR 0xE1] @ ''lido:'' @ '' '' @ user_command)), st))"

subsection \<open>Requests\<close>

text \<open>
  \<open>__send_requisition\<close> writes the request to the socket and parses what it reads back.
  What the server and the transport do is not part of the client: \<open>net k\<close> is the
  outcome of the \<open>k\<close>-th call (counted from 0), an exception (\<open>OSError\<close> from the socket,
  \<open>JSONDecodeError\<close> or \<open>UnicodeDecodeError\<close> from \<open>json.loads\<close>) or a response body.
\<close>

datatype 'n send_result = Raises error | Received "'n response"


definition send_requisition ::
  "(nat \<Rightarrow> 'n send_result) \<Rightarrow> string \<times> string option \<Rightarrow> 'n client
     \<Rightarrow> (error + 'n response) \<times> 'n client" where
  "send_requisition net req_body st =
     (let st' = st\<lparr>sent := sent st @ [req_body]\<rparr>
      in case net (length (sent st)) of
           Raises e \<Rightarrow> (Inl e, st')
         | Received response_data \<Rightarrow> (Inr response_data, st'))"

subsection \<open>The end of a round\<close>

text \<open>
  \<open>__get_user_end_game_option\<close>: asks again until the line is "1" or "2".
\<close>

function end_game_option_loop :: "string \<Rightarrow> 'n client \<Rightarrow> (error + string) \<times> 'n client" where
  "end_game_option_loop usr_input st =
     (if usr_input \<noteq> ''1'' \<and> usr_input \<noteq> ''2''
      then (case input_py (''Digite uma op'' @ [CHR 0xE7, CHR 0xE3] @ ''o v'' @ [CHR 0xE1]
                           @ ''lida (1/2): '') st of
              (Inl e, st') \<Rightarrow> (Inl e, st')
            | (Inr usr_input', st') \<Rightarrow> end_game_option_loop usr_input' st')
      else (Inr usr_input, st))"
  by pat_completeness auto
termination
  by (relation "measure (\<lambda>(u, st). length (stdin st))")
     (auto simp: input_py_def emit_def split: list.splits)

definition get_user_end_game_option :: "'n client \<Rightarrow> (error + string) \<times> 'n client" where
  "get_user_end_game_option st =
     (case input_py ''Digite 1 para continuar ou 2 para sair: '' st of
        (Inl e, st') \<Rightarrow> (Inl e, st')
      | (Inr usr_input, st') \<Rightarrow> end_game_option_loop usr_input st')"

definition check_exit_game :: "string \<Rightarrow> 'n client \<Rightarrow> bool \<times> 'n client" where
  "check_exit_game option st =
     (if option = ''1'' then (False, st\<lparr>game_status := GAME_IN_PROGRESS\<rparr>)
      else (True, st\<lparr>game_status := GAME_FINISHED\<rparr>))"

text \<open>
  \<open>__game_continued_action\<close>: \<open>for _ in range(3)\<close> with the body in a \<open>try\<close> that catches
  \<open>OSError\<close> and \<open>json.JSONDecodeError\<close> only; \<open>continue_loop n\<close> is the loop with \<open>n\<close>
  rounds to go. With the status code \<open>null\<close>, \<open>__render_response\<close> raises \<open>TypeError\<close> at
  \<open>200 <= None\<close>.
\<close>

definition continue_body :: "(nat \<Rightarrow> 'n send_result) \<Rightarrow> 'n client \<Rightarrow> (error + unit) \<times> 'n client" where
  "continue_body net st =
     (case send_requisition net (''continue_game'', None) st of
        (Inl e, st') \<Rightarrow> (Inl e, st')
      | (Inr response_data, st') \<Rightarrow>
          (case dict_item ''status_code'' (r_status_code response_data) of
             Inl e \<Rightarrow> (Inl e, st')
           | Inr None \<Rightarrow> (Inl TypeError, st')
           | Inr (Some response_status) \<Rightarrow>
               render_response response_status (no_extra\<lparr>x_player_name := user_name st'\<rparr>) st'))"

fun continue_loop :: "nat \<Rightarrow> (nat \<Rightarrow> 'n send_result) \<Rightarrow> 'n client \<Rightarrow> (error + unit) \<times> 'n client" where
  "continue_loop 0 net st =
     (Inr (), emit (Print ''Ocorreu um erro ao continuar o jogo. Por favor, considere reiniciar'') st)"
| "continue_loop (Suc n) net st =
     (case continue_body net st of
        (Inr u, st') \<Rightarrow> (Inr (), st')
      | (Inl e, st') \<Rightarrow>
          if e = OSError
          then continue_loop n net
                 (emit (Print ''Ocorreu um erro ao enviar ou receber dados pelo socket.'') st')
          else if e = JSONDecodeError
          then continue_loop n net
                 (emit (Print ''Ocorreu um erro ao decodificar a resposta do servidor.'') st')
          else (Inl e, st'))"

definition game_continued_action :: "(nat \<Rightarrow> 'n send_result) \<Rightarrow> 'n client \<Rightarrow> (error + unit) \<times> 'n client" where
  "game_continued_action net st = continue_loop 3 net st"

text \<open>
  The end-of-round choice, written out twice in \<open>__handle_response_status\<close> (after the
  rendering of status 202 and of status 203 with no attempt left): the prompt, the
  option, and then either the goodbye, \<open>close()\<close> and \<open>sys.exit(0)\<close>, or the
  continue-round exchange.
\<close>

definition end_game_message :: string where
  "end_game_message = [CHR 0x0A] @ ''A rodada acabou! Deseja continuar jogando?''"

definition end_of_round :: "(nat \<Rightarrow> 'n send_result) \<Rightarrow> 'n client \<Rightarrow> (error + unit) \<times> 'n client" where
  "end_of_round net st =
     (let st1 = emit (Print end_game_message) st
      in case get_user_end_game_option st1 of
           (Inl e, st2) \<Rightarrow> (Inl e, st2)
         | (Inr option, st2) \<Rightarrow>
             (case check_exit_game option st2 of
                (True, st3) \<Rightarrow>
                  (Inl (SystemExit 0),
                   (emit (Print ([CHR 0x0A] @ ''At'' @ [CHR 0xE9] @ '' a pr'' @ [CHR 0xF3] @ ''xima, ''
                                 @ str_opt (user_name st3) @ ''! Obrigado por jogar o Termo!'')) st3)
                     \<lparr>sock_closed := True\<rparr>)
              | (False, st3) \<Rightarrow> game_continued_action net st3))"

subsection \<open>\<open>__handle_response_status\<close>\<close>

text \<open>
  The keyword arguments of a call are evaluated from left to right, so the first absent
  key among those read with \<open>response_data[key]\<close> is the one of the \<open>KeyError\<close>.
\<close>

definition handle_response_status ::
  "(nat \<Rightarrow> 'n send_result) \<Rightarrow> int \<Rightarrow> 'n response \<Rightarrow> string option \<Rightarrow> 'n client
     \<Rightarrow> (error + unit) \<times> 'n client" where
  "handle_response_status net response_status response_data parameter st =
     (let remaining_attempts = dict_get (r_remaining_attempts response_data)
      in
      if response_status = 200 then
        (case render_response response_status no_extra st of
           (Inl e, st') \<Rightarrow> (Inl e, st')
         | (Inr u, st') \<Rightarrow> (Inr (), st'\<lparr>game_status := GAME_IN_PROGRESS\<rparr>))
      else if response_status = 201 then
        (case render_response response_status no_extra st of
           (Inl e, st') \<Rightarrow> (Inl e, st')
         | (Inr u, st') \<Rightarrow> (Inr (), st'\<lparr>game_status := NO_GAME\<rparr>))
      else if response_status = 202 then
        (case dict_item ''rounds_scores'' (r_rounds_scores response_data) of
           Inl e \<Rightarrow> (Inl e, st)
         | Inr rounds_scores \<Rightarrow>
        (case dict_item ''total_score'' (r_total_score response_data) of
           Inl e \<Rightarrow> (Inl e, st)
         | Inr total_score \<Rightarrow>
        (case render_response response_status
                (no_extra\<lparr>x_remaining_attempts := remaining_attempts,
                          x_rounds_scores := rounds_scores,
                          x_total_score := total_score\<rparr>) st of
           (Inl e, st') \<Rightarrow> (Inl e, st')
         | (Inr u, st') \<Rightarrow> end_of_round net st')))
      else if response_status = 203 then
        (case dict_item ''word_encoded'' (r_word_encoded response_data) of
           Inl e \<Rightarrow> (Inl e, st)
         | Inr word_encoded \<Rightarrow>
        (case format_output parameter word_encoded of
           Inl e \<Rightarrow> (Inl e, st)
         | Inr color_str \<Rightarrow>
             if remaining_attempts \<noteq> Some 0
             then render_response response_status
                    (no_extra\<lparr>x_format_output := color_str,
                              x_remaining_attempts := remaining_attempts\<rparr>) st
             else
        (case dict_item ''secret_word'' (r_secret_word response_data) of
           Inl e \<Rightarrow> (Inl e, st)
         | Inr secret_word \<Rightarrow>
        (case dict_item ''rounds_scores'' (r_rounds_scores response_data) of
           Inl e \<Rightarrow> (Inl e, st)
         | Inr rounds_scores \<Rightarrow>
        (case dict_item ''total_score'' (r_total_score response_data) of
           Inl e \<Rightarrow> (Inl e, st)
         | Inr total_score \<Rightarrow>
        (case render_response response_status
                (no_extra\<lparr>x_format_output := color_str,
                          x_secret_word := secret_word,
                          x_rounds_scores := rounds_scores,
                          x_total_score := total_score,
                          x_remaining_attempts := remaining_attempts\<rparr>) st of
           (Inl e, st') \<Rightarrow> (Inl e, st')
         | (Inr u, st') \<Rightarrow> end_of_round net st'))))))
      else if response_status = 206 then
        render_response response_status (no_extra\<lparr>x_player_name := user_name st\<rparr>) st
      else render_response response_status (no_extra\<lparr>x_remaining_attempts := remaining_attempts\<rparr>) st)"

subsection \<open>One pass of the interaction loop of \<open>run\<close>\<close>

text \<open>
  The body of \<open>while True\<close>: menu, hint, command, request, response. \<open>ValueError\<close> and
  every other \<open>Exception\<close> are caught and printed; \<open>SystemExit\<close> is not an \<open>Exception\<close>
  and ends the process. With the status code \<open>null\<close>, \<open>__handle_response_status\<close> finds
  \<open>None\<close> equal to none of its codes and its last branch calls \<open>__render_response\<close>,
  which raises \<open>TypeError\<close> at \<open>200 <= None\<close>.
\<close>

definition run_body :: "(nat \<Rightarrow> 'n send_result) \<Rightarrow> 'n client \<Rightarrow> (error + unit) \<times> 'n client" where
  "run_body net st =
     (let st1 = emit (Print (esc ''90m'' @ ''Pressione Ctrl + C para sair do jogo!'' @ esc ''0m''))
                  (render_menu_table st)
      in case input_py ''Termo> '' st1 of
           (Inl e, st2) \<Rightarrow> (Inl e, st2)
         | (Inr user_cmd, st2) \<Rightarrow>
        (case process_user_command user_cmd st2 of
           (Inl e, st3) \<Rightarrow> (Inl e, st3)
         | (Inr (command, parameter), st3) \<Rightarrow>
        (case send_requisition net (command, parameter) st3 of
           (Inl e, st4) \<Rightarrow> (Inl e, st4)
         | (Inr response_data, st4) \<Rightarrow>
        (case dict_item ''status_code'' (r_status_code response_data) of
           Inl e \<Rightarrow> (Inl e, st4)
         | Inr None \<Rightarrow> (Inl TypeError, st4)
         | Inr (Some response_status) \<Rightarrow>
             handle_response_status net response_status response_data parameter st4))))"

definition run_iteration :: "(nat \<Rightarrow> 'n send_result) \<Rightarrow> 'n client \<Rightarrow> (error + unit) \<times> 'n client" where
  "run_iteration net st =
     (case run_body net st of
        (Inr u, st') \<Rightarrow> (Inr (), st')
      | (Inl (SystemExit code), st') \<Rightarrow> (Inl (SystemExit code), st')
      | (Inl e, st') \<Rightarrow> (Inr (), emit (PrintError e) st'))"

subsection \<open>\<open>__connect_to_server\<close>\<close>

text \<open>
  \<^verbatim>\<open>
  for _ in range(5):
      try:
          sock = socket.socket(socket.AF_INET, socket.SOCK_STREAM)
          sock.connect((self.__HOST, self.__PORT))
          return sock
      except socket.error:
          try:
              print("Erro ao conectar ao servidor. Tentando novamente em 5 segundos.")
              sleep(5)
          except KeyboardInterrupt:
              print("Encerrando o Termo!")
              exit(0)
  raise socket.error("... Tente reiniciar o cliente.")
  \<close>
  What the network does is given from outside: \<open>env k\<close> is the outcome of the \<open>k\<close>-th
  attempt (counted from 0), \<open>Connected sock\<close> or \<open>Refused interrupted\<close>, where
  \<open>interrupted\<close> says whether the user interrupts the wait that follows. The result is
  what the method returns or raises, the number of attempts made, and the terminal.
\<close>

datatype conn_result = Refused bool | Connected nat

definition retry_notice :: string where
  "retry_notice = ''Erro ao conectar ao servidor. Tentando novamente em 5 segundos.''"

definition restart_client_message :: string where
  "restart_client_message =
     ''N'' @ [CHR 0xE3] @ ''o foi poss'' @ [CHR 0xED]
     @ ''vel conectar ao servidor. Tente reiniciar o cliente.''"

fun connect_loop ::
  "nat \<Rightarrow> (nat \<Rightarrow> conn_result) \<Rightarrow> nat \<Rightarrow> 'n event list \<Rightarrow> (error + nat) \<times> nat \<times> 'n event list" where
  "connect_loop 0 env k tr = (Inl (SocketError restart_client_message), k, tr)"
| "connect_loop (Suc n) env k tr =
     (case env k of
        Connected sock \<Rightarrow> (Inr sock, Suc k, tr)
      | Refused interrupted \<Rightarrow>
          if interrupted
          then (Inl (SystemExit 0), Suc k, tr @ [Print retry_notice, Print ''Encerrando o Termo!''])
          else connect_loop n env (Suc k) (tr @ [Print retry_notice, Sleep 5]))"

definition connect_to_server :: "(nat \<Rightarrow> conn_result) \<Rightarrow> (error + nat) \<times> nat \<times> 'n event list" where
  "connect_to_server env = connect_loop 5 env 0 []"

subsection \<open>Vocabulary for the continue-round exchange\<close>

text \<open>
  The outcomes of a request that \<open>__game_continued_action\<close> catches, the diagnostic that
  its handler prints, and the state after \<open>k\<close> diagnostics and \<open>j\<close> requests of an
  exchange that started in \<open>st\<close>.
\<close>

definition retryable :: "'n send_result \<Rightarrow> bool" where
  "retryable r = (case r of Raises e \<Rightarrow> e = OSError \<or> e = JSONDecodeError | Received d \<Rightarrow> False)"

definition diagnostic :: "'n send_result \<Rightarrow> string" where
  "diagnostic r =
     (case r of
        Raises e \<Rightarrow>
          if e = OSError then ''Ocorreu um erro ao enviar ou receber dados pelo socket.''
          else ''Ocorreu um erro ao decodificar a resposta do servidor.''
      | Received d \<Rightarrow> [])"

definition after_failures :: "(nat \<Rightarrow> 'n send_result) \<Rightarrow> 'n client \<Rightarrow> nat \<Rightarrow> nat \<Rightarrow> 'n client" where
  "after_failures net st k j =
     st\<lparr>sent := sent st @ replicate j (''continue_game'', None),
        out := out st @ map (\<lambda>i. Print (diagnostic (net (length (sent st) + i)))) [0..<k]\<rparr>"

subsection \<open>Vocabulary for what rendering leaves alone\<close>

text \<open>
  \<open>session_kept st st'\<close>: the status, the requests sent, the unread input, the nickname
  and the socket are the same in both states. \<open>render_error r\<close>: if \<open>r\<close> is an
  exception, it is one of those that rendering can raise.
\<close>

definition session_kept :: "'n client \<Rightarrow> 'n client \<Rightarrow> bool" where
  "session_kept st st' \<longleftrightarrow>
     game_status st' = game_status st \<and> sent st' = sent st \<and> stdin st' = stdin st \<and>
     user_name st' = user_name st \<and> sock_closed st' = sock_closed st"

definition render_error :: "error + unit \<Rightarrow> bool" where
  "render_error r \<longleftrightarrow>
     (case r of
        Inl TypeError \<Rightarrow> True
      | Inl AttributeError \<Rightarrow> True
      | Inl (ValueError m) \<Rightarrow> True
      | Inl e \<Rightarrow> False
      | Inr u \<Rightarrow> True)"

section \<open>Properties\<close>

subsection \<open>The attempts line\<close>

lemma str_nat_unfold:
  "str_nat n = (if n < 10 then [digit_char n] else str_nat (n div 10) @ [digit_char (n mod 10)])"
  by simp

declare str_nat.simps [simp del]

text \<open>
  C1, as amended. For every call of \<open>__return_attempts\<close> with an integer: a non-negative
  \<open>n\<close> gives "Tentativas Restantes: n", a negative one gives the attempts-so-far text
  with the size of the word-history stack, and the call does not fail.
\<close>

theorem return_attempts_int:
  "(0 \<le> n \<longrightarrow> return_attempts (Some n) stack = Inr (''Tentativas Restantes: '' @ str_int n)) \<and>
   (n < 0 \<longrightarrow> return_attempts (Some n) stack =
      Inr (''N'' @ [CHR 0xFA] @ ''mero de tentativas at'' @ [CHR 0xE9] @ '' agora: ''
           @ str_int (int (length stack))))"
  by (simp add: return_attempts_def len_def)

theorem return_attempts_int_witness:
  "return_attempts (Some 3) [] = Inr ''Tentativas Restantes: 3'' \<and>
   return_attempts (Some (- 1)) [Some ''a'', None] =
     Inr (''N'' @ [CHR 0xFA] @ ''mero de tentativas at'' @ [CHR 0xE9] @ '' agora: 2'')"
  using return_attempts_int [of 3 "[]"] return_attempts_int [of "- 1" "[Some ''a'', None]"]
  by (simp add: str_int_def str_nat_unfold digit_char_def)

text \<open>
  C1 as stated fails when the value is absent: \<open>None >= 0\<close> raises \<open>TypeError\<close>, and the
  attempts-so-far text is not returned.
\<close>

theorem return_attempts_absent_counterexample:
  "return_attempts None [] = Inl TypeError \<and>
   return_attempts None [] \<noteq>
     Inr (''N'' @ [CHR 0xFA] @ ''mero de tentativas at'' @ [CHR 0xE9] @ '' agora: 0'')"
  by (simp add: return_attempts_def)

subsection \<open>Colouring a guess\<close>

lemma format_loop_ok:
  "index + length enc \<le> length word \<Longrightarrow>
   format_loop word index enc output =
     Inr (output @ concat (map (\<lambda>i. wrap_letter (enc ! i) (word ! (index + i))) [0..<length enc]))"
proof (induction enc arbitrary: index "output")
  case Nil
  then show ?case by simp
next
  case (Cons items rest)
  have "[0..<length (items # rest)] = 0 # map Suc [0..<length rest]"
    by (simp add: upt_conv_Cons map_Suc_upt del: upt_Suc)
  with Cons show ?case by (simp add: comp_def)
qed

lemma format_loop_fail:
  "index \<le> length word \<Longrightarrow> length word < index + length enc \<Longrightarrow>
   format_loop word index enc acc = Inl IndexError"
  by (induction enc arbitrary: index acc) auto

lemma wrap_letter_length: "length (wrap_letter v c) = 10"
  by (simp add: wrap_letter_def esc_def)

lemma wrap_letter_nth5: "wrap_letter v c ! 5 = c"
  by (simp add: wrap_letter_def esc_def)

lemma colored_length:
  "length (concat (map (\<lambda>i. wrap_letter (e ! i) (w ! i)) [0..<n])) = 10 * n"
  by (induction n) (simp_all add: wrap_letter_length)

lemma colored_nth:
  "k < n \<Longrightarrow> concat (map (\<lambda>i. wrap_letter (e ! i) (w ! i)) [0..<n]) ! (10 * k + 5) = w ! k"
proof (induction n)
  case 0
  then show ?case by simp
next
  case (Suc n)
  show ?case
  proof (cases "k < n")
    case True
    then have "10 * k + 5 < 10 * n" by simp
    with True Suc.IH show ?thesis by (simp add: nth_append colored_length)
  next
    case False
    with Suc.prems have "k = n" by simp
    then show ?thesis by (simp add: nth_append colored_length wrap_letter_nth5)
  qed
qed

lemma format_output_ok:
  "w \<noteq> [] \<Longrightarrow> e \<noteq> [] \<Longrightarrow> length e \<le> length w \<Longrightarrow>
   format_output (Some w) (Some e) =
     Inr (Some (concat (map (\<lambda>i. wrap_letter (e ! i) (w ! i)) [0..<length e])))"
  using format_loop_ok [of 0 e w "[]"] by (simp add: format_output_def)

lemma format_output_fail:
  "w \<noteq> [] \<Longrightarrow> length w < length e \<Longrightarrow> format_output (Some w) (Some e) = Inl IndexError"
  using format_loop_fail [of 0 w e "[]"] by (auto simp: format_output_def)

text \<open>
  C8, as amended. \<open>__format_output\<close> returns \<open>None\<close> (no string) when the word or the
  encoding is absent or empty. Otherwise, for an encoding that is not longer than the
  word, it returns the wrapped letters concatenated in index order; value 2 wraps
  in \<open>ESC[92m\<close> (bright green), 1 in \<open>ESC[93m\<close> (bright yellow), any other value in
  \<open>ESC[90m\<close> (dim gray), and each letter is followed by the reset \<open>ESC[0m\<close>.
\<close>

theorem format_output_colorize:
  "(word = None \<or> word = Some [] \<or> enc = None \<or> enc = Some [] \<longrightarrow>
      format_output word enc = Inr None) \<and>
   (w \<noteq> [] \<and> e \<noteq> [] \<and> length e \<le> length w \<longrightarrow>
      format_output (Some w) (Some e) =
        Inr (Some (concat (map (\<lambda>i. wrap_letter (e ! i) (w ! i)) [0..<length e])))) \<and>
   wrap_letter 2 c = [CHR 0x1B, CHR ''['', CHR ''9'', CHR ''2'', CHR ''m'', c,
                      CHR 0x1B, CHR ''['', CHR ''0'', CHR ''m''] \<and>
   wrap_letter 1 c = [CHR 0x1B, CHR ''['', CHR ''9'', CHR ''3'', CHR ''m'', c,
                      CHR 0x1B, CHR ''['', CHR ''0'', CHR ''m''] \<and>
   (v \<noteq> 2 \<and> v \<noteq> 1 \<longrightarrow>
      wrap_letter v c = [CHR 0x1B, CHR ''['', CHR ''9'', CHR ''0'', CHR ''m'', c,
                         CHR 0x1B, CHR ''['', CHR ''0'', CHR ''m''])"
proof -
  have absent: "word = None \<or> word = Some [] \<or> enc = None \<or> enc = Some [] \<longrightarrow>
      format_output word enc = Inr None"
    by (auto simp: format_output_def split: option.splits)
  have present: "w \<noteq> [] \<and> e \<noteq> [] \<and> length e \<le> length w \<longrightarrow>
      format_output (Some w) (Some e) =
        Inr (Some (concat (map (\<lambda>i. wrap_letter (e ! i) (w ! i)) [0..<length e])))"
    by (simp add: format_output_ok)
  show ?thesis using absent present by (simp add: wrap_letter_def esc_def)
qed

theorem format_output_colorize_witness:
  "format_output None (Some [2, 1]) = Inr None \<and>
   format_output (Some ''ab'') (Some []) = Inr None \<and>
   format_output (Some ''crane'') (Some [0, 1, 2, 0, 2]) =
     Inr (Some (esc ''90m'' @ ''c'' @ esc ''0m'' @ esc ''93m'' @ ''r'' @ esc ''0m''
                @ esc ''92m'' @ ''a'' @ esc ''0m'' @ esc ''90m'' @ ''n'' @ esc ''0m''
                @ esc ''92m'' @ ''e'' @ esc ''0m'')) \<and>
   wrap_letter 0 CHR ''c'' = [CHR 0x1B, CHR ''['', CHR ''9'', CHR ''0'', CHR ''m'', CHR ''c'',
                             CHR 0x1B, CHR ''['', CHR ''0'', CHR ''m'']"
  using format_output_colorize [where word = None and enc = "Some [2, 1]" and w = "''crane''"
          and e = "[0, 1, 2, 0, 2]" and v = 0 and c = "CHR ''c''"]
        format_output_colorize [where word = "Some ''ab''" and enc = "Some []" and w = "''crane''"
          and e = "[0, 1, 2, 0, 2]" and v = 0 and c = "CHR ''c''"]
  by (simp add: upt_conv_Cons wrap_letter_def esc_def)

text \<open>
  C8 as stated fails for an encoding that is longer than the word: there is no letter
  to wrap for the third entry, and \<open>word[index]\<close> raises \<open>IndexError\<close>.
\<close>

theorem format_output_longer_encoding_counterexample:
  "format_output (Some ''ab'') (Some [2, 2, 2]) = Inl IndexError"
  by (simp add: format_output_def)

text \<open>
  C10. For a non-empty word and a non-empty encoding, \<open>__format_output\<close> returns exactly
  when the encoding is not longer than the word; the result then has one wrapped letter
  (ten characters, the letter at offset 5) per encoding entry; with a longer encoding
  the lookup \<open>word[index]\<close> is out of bounds and \<open>IndexError\<close> is raised.
\<close>

theorem format_output_total_iff:
  "w \<noteq> [] \<Longrightarrow> e \<noteq> [] \<Longrightarrow>
     ((\<exists>r. format_output (Some w) (Some e) = Inr r) \<longleftrightarrow> length e \<le> length w) \<and>
     (length e \<le> length w \<longrightarrow>
        (\<exists>s. format_output (Some w) (Some e) = Inr (Some s) \<and> length s = 10 * length e \<and>
             (\<forall>k<length e. s ! (10 * k + 5) = w ! k))) \<and>
     (length w < length e \<longrightarrow> format_output (Some w) (Some e) = Inl IndexError)"
proof -
  assume w: "w \<noteq> []" and e: "e \<noteq> []"
  have ok: "length e \<le> length w \<longrightarrow>
        (\<exists>s. format_output (Some w) (Some e) = Inr (Some s) \<and> length s = 10 * length e \<and>
             (\<forall>k<length e. s ! (10 * k + 5) = w ! k))"
    using w e by (simp add: format_output_ok colored_length colored_nth)
  have bad: "length w < length e \<longrightarrow> format_output (Some w) (Some e) = Inl IndexError"
    using w by (simp add: format_output_fail)
  have "(\<exists>r. format_output (Some w) (Some e) = Inr r) \<longleftrightarrow> length e \<le> length w"
  proof (cases "length e \<le> length w")
    case True
    with ok show ?thesis by auto
  next
    case False
    with bad show ?thesis by auto
  qed
  with ok bad show ?thesis by simp
qed

theorem format_output_total_iff_witness:
  "(\<exists>r. format_output (Some ''abc'') (Some [2, 1]) = Inr r) \<and>
   (\<exists>s. format_output (Some ''abc'') (Some [2, 1]) = Inr (Some s) \<and> length s = 20 \<and>
        s ! 5 = CHR ''a'' \<and> s ! 15 = CHR ''b'') \<and>
   format_output (Some ''ab'') (Some [2, 1, 0]) = Inl IndexError"
proof -
  have a: "format_output (Some ''abc'') (Some [2, 1]) =
            Inr (Some (esc ''92m'' @ ''a'' @ esc ''0m'' @ esc ''93m'' @ ''b'' @ esc ''0m''))"
    by (simp add: format_output_def wrap_letter_def)
  have b: "format_output (Some ''ab'') (Some [2, 1, 0]) = Inl IndexError"
    using format_output_total_iff [of "''ab''" "[2, 1, 0]"] by simp
  show ?thesis
    using format_output_total_iff [of "''abc''" "[2, 1]"] a b by (simp add: esc_def)
qed

subsection \<open>Dispatch on the status code\<close>

text \<open>
  C4. \<open>__render_response\<close> hands the codes from 200 to 399 to the success handler and
  the codes from 400 to 499 to the error handler; for every other code it returns
  with the state, terminal included, as it was.
\<close>

theorem render_response_dispatch:
  "(200 \<le> s \<and> s < 400 \<longrightarrow> render_response s extra st = handle_successful_cases s extra st) \<and>
   (400 \<le> s \<and> s < 500 \<longrightarrow> render_response s extra st = handle_error_cases s extra st) \<and>
   (s < 200 \<or> 500 \<le> s \<longrightarrow> render_response s extra st = (Inr (), st))"
  by (simp add: render_response_def)

theorem render_response_dispatch_witness:
  "render_response 205 no_extra (init_client ''ana'' []) =
     handle_successful_cases 205 no_extra (init_client ''ana'' []) \<and>
   render_response 401 no_extra (init_client ''ana'' []) =
     handle_error_cases 401 no_extra (init_client ''ana'' []) \<and>
   render_response 199 no_extra (init_client ''ana'' []) = (Inr (), init_client ''ana'' []) \<and>
   render_response 500 no_extra (init_client ''ana'' []) = (Inr (), init_client ''ana'' [])"
  using render_response_dispatch [of 205 no_extra "init_client ''ana'' []"]
        render_response_dispatch [of 401 no_extra "init_client ''ana'' []"]
        render_response_dispatch [of 199 no_extra "init_client ''ana'' []"]
        render_response_dispatch [of 500 no_extra "init_client ''ana'' []"]
  by simp

text \<open>
  C3 fails on the code at a supplied value of 0. A response with status 499 and
  \<open>remaining_attempts = 0\<close> prints the invalid-command message alone, because
  \<open>if remaining_attempts:\<close> is false for 0; with \<open>remaining_attempts = 2\<close> the attempts
  line follows.
\<close>

theorem handle_error_cases_499_zero:
  "handle_response_status net 499
     \<lparr>r_status_code = Value 499, r_remaining_attempts = Value 0, r_word_encoded = Absent,
      r_secret_word = Absent, r_rounds_scores = Absent, r_total_score = Absent\<rparr> parameter st =
     (Inr (), emit (Print invalid_command_message) st) \<and>
   handle_response_status net 499
     \<lparr>r_status_code = Value 499, r_remaining_attempts = Value 2, r_word_encoded = Absent,
      r_secret_word = Absent, r_rounds_scores = Absent, r_total_score = Absent\<rparr> parameter st =
     (Inr (), emit (Print ''Tentativas Restantes: 2'') (emit (Print invalid_command_message) st))"
  apply (simp add: handle_response_status_def render_response_def Let_def dict_get_def)
  apply (simp add: handle_error_cases_def truthy_def no_extra_def Let_def)
  apply (simp add: return_attempts_def str_int_def str_nat_unfold digit_char_def emit_def)
  done

subsection \<open>Interpreting a command\<close>

text \<open>
  C7. \<open>__process_user_command\<close> maps "1" to \<open>start_game\<close> with the nickname and "2" to
  \<open>exit_game\<close> with no parameter, whatever the status. While the status is
  \<open>GAME_IN_PROGRESS\<close> it maps "3" to \<open>check_word\<close> with the prompted word in lower
  case, "4" to \<open>list_words\<close> with no parameter and "5" to \<open>restart_game\<close> with the
  nickname. Any other input, and "3", "4", "5" in another status, raise \<open>ValueError\<close>
  with the message "Comando invalido: " followed by the input.
\<close>

theorem process_user_command_mapping:
  "process_user_command ''1'' st = (Inr (''start_game'', user_name st), st) \<and>
   process_user_command ''2'' st = (Inr (''exit_game'', None), st) \<and>
   (game_status st = GAME_IN_PROGRESS \<longrightarrow>
      (stdin st = word # rest \<longrightarrow>
         process_user_command ''3'' st =
           (Inr (''check_word'', Some (lower word)),
            (emit (Prompt ''Digite uma palavra: '') st)\<lparr>stdin := rest\<rparr>)) \<and>
      process_user_command ''4'' st = (Inr (''list_words'', None), st) \<and>
      process_user_command ''5'' st = (Inr (''restart_game'', user_name st), st)) \<and>
   (c \<noteq> ''1'' \<and> c \<noteq> ''2'' \<and>
    (game_status st \<noteq> GAME_IN_PROGRESS \<or> (c \<noteq> ''3'' \<and> c \<noteq> ''4'' \<and> c \<noteq> ''5'')) \<longrightarrow>
      process_user_command c st =
        (Inl (ValueError (''Comando inv'' @ [CHR 0xE1] @ ''lido: '' @ c)), st))"
proof (intro conjI impI)
  show "process_user_command ''1'' st = (Inr (''start_game'', user_name st), st)"
    by (simp add: process_user_command_def)
  show "process_user_command ''2'' st = (Inr (''exit_game'', None), st)"
    by (simp add: process_user_command_def)
next
  assume "game_status st = GAME_IN_PROGRESS" and "stdin st = word # rest"
  then show "process_user_command ''3'' st =
           (Inr (''check_word'', Some (lower word)),
            (emit (Prompt ''Digite uma palavra: '') st)\<lparr>stdin := rest\<rparr>)"
    by (simp add: process_user_command_def input_py_def)
next
  assume "game_status st = GAME_IN_PROGRESS"
  then show "process_user_command ''4'' st = (Inr (''list_words'', None), st)"
    by (simp add: process_user_command_def)
next
  assume "game_status st = GAME_IN_PROGRESS"
  then show "process_user_command ''5'' st = (Inr (''restart_game'', user_name st), st)"
    by (simp add: process_user_command_def)
next
  assume a: "c \<noteq> ''1'' \<and> c \<noteq> ''2'' \<and>
    (game_status st \<noteq> GAME_IN_PROGRESS \<or> (c \<noteq> ''3'' \<and> c \<noteq> ''4'' \<and> c \<noteq> ''5''))"
  show "process_user_command c st =
        (Inl (ValueError (''Comando inv'' @ [CHR 0xE1] @ ''lido: '' @ c)), st)"
  proof (cases "game_status st = GAME_IN_PROGRESS")
    case True
    with a show ?thesis by (simp add: process_user_command_def)
  next
    case False
    with a show ?thesis by (simp add: process_user_command_def)
  qed
qed

theorem process_user_command_mapping_witness:
  "process_user_command ''3''
     (init_client ''alice'' [''HELLO''] \<lparr>game_status := GAME_IN_PROGRESS\<rparr> :: unit client) =
     (Inr (''check_word'', Some ''hello''),
      init_client ''alice'' [] \<lparr>game_status := GAME_IN_PROGRESS, out := [Prompt ''Digite uma palavra: '']\<rparr>) \<and>
   process_user_command ''4'' (init_client ''alice'' [] \<lparr>game_status := GAME_IN_PROGRESS\<rparr> :: unit client) =
     (Inr (''list_words'', None), init_client ''alice'' [] \<lparr>game_status := GAME_IN_PROGRESS\<rparr>) \<and>
   process_user_command ''5'' (init_client ''alice'' [] \<lparr>game_status := GAME_IN_PROGRESS\<rparr> :: unit client) =
     (Inr (''restart_game'', Some ''alice''), init_client ''alice'' [] \<lparr>game_status := GAME_IN_PROGRESS\<rparr>) \<and>
   process_user_command ''3'' (init_client ''alice'' [] :: unit client) =
     (Inl (ValueError (''Comando inv'' @ [CHR 0xE1] @ ''lido: 3'')), init_client ''alice'' []) \<and>
   process_user_command ''x'' (init_client ''alice'' [] \<lparr>game_status := GAME_IN_PROGRESS\<rparr> :: unit client) =
     (Inl (ValueError (''Comando inv'' @ [CHR 0xE1] @ ''lido: x'')),
      init_client ''alice'' [] \<lparr>game_status := GAME_IN_PROGRESS\<rparr>)"
proof -
  let ?p = "init_client ''alice'' [] \<lparr>game_status := GAME_IN_PROGRESS\<rparr> :: unit client"
  let ?q = "init_client ''alice'' [''HELLO''] \<lparr>game_status := GAME_IN_PROGRESS\<rparr> :: unit client"
  have lw: "lower ''HELLO'' = ''hello''"
    by code_simp
  have q: "game_status ?q = GAME_IN_PROGRESS" "stdin ?q = ''HELLO'' # []"
    by (simp_all add: init_client_def)
  have p: "game_status ?p = GAME_IN_PROGRESS" "user_name ?p = Some ''alice''"
    by (simp_all add: init_client_def)
  have n: "game_status (init_client ''alice'' [] :: unit client) \<noteq> GAME_IN_PROGRESS"
    by (simp add: init_client_def)
  have e: "emit (Prompt ''Digite uma palavra: '') ?q \<lparr>stdin := []\<rparr> =
      init_client ''alice'' [] \<lparr>game_status := GAME_IN_PROGRESS, out := [Prompt ''Digite uma palavra: '']\<rparr>"
    by (simp add: init_client_def emit_def)
  have three: "process_user_command ''3'' ?q =
     (Inr (''check_word'', Some ''hello''),
      init_client ''alice'' [] \<lparr>game_status := GAME_IN_PROGRESS, out := [Prompt ''Digite uma palavra: '']\<rparr>)"
    using process_user_command_mapping [of ?q "''HELLO''" "[]" "''x''"] q lw e by simp
  have four: "process_user_command ''4'' ?p = (Inr (''list_words'', None), ?p)"
    and five: "process_user_command ''5'' ?p = (Inr (''restart_game'', Some ''alice''), ?p)"
    and other: "process_user_command ''x'' ?p =
       (Inl (ValueError (''Comando inv'' @ [CHR 0xE1] @ ''lido: x'')), ?p)"
    using process_user_command_mapping [of ?p "''HELLO''" "[]" "''x''"] p by simp_all
  have nogame: "process_user_command ''3'' (init_client ''alice'' [] :: unit client) =
     (Inl (ValueError (''Comando inv'' @ [CHR 0xE1] @ ''lido: 3'')), init_client ''alice'' [])"
    using process_user_command_mapping [of "init_client ''alice'' [] :: unit client" "''HELLO''" "[]" "''3''"] n
    by simp
  from three four five nogame other show ?thesis by blast
qed

subsection \<open>Connecting\<close>

lemma connect_loop_all_refused:
  "(\<forall>i<n. env (k + i) = Refused False) \<Longrightarrow>
   connect_loop n env k tr =
     (Inl (SocketError restart_client_message), k + n,
      tr @ concat (replicate n [Print retry_notice, Sleep 5]))"
proof (induction n arbitrary: k tr)
  case 0
  then show ?case by simp
next
  case (Suc n)
  from Suc.prems have here: "env k = Refused False" by (metis add.right_neutral zero_less_Suc)
  have later: "\<forall>i<n. env (Suc k + i) = Refused False"
    using Suc.prems by (metis Suc_less_eq add_Suc_shift)
  show ?case using here Suc.IH [OF later] by simp
qed

lemma connect_loop_first_success:
  "i < n \<Longrightarrow> env (k + i) = Connected sock \<Longrightarrow> (\<forall>j<i. env (k + j) = Refused False) \<Longrightarrow>
   connect_loop n env k tr =
     (Inr sock, Suc (k + i), tr @ concat (replicate i [Print retry_notice, Sleep 5]))"
proof (induction n arbitrary: k i tr)
  case 0
  then show ?case by simp
next
  case (Suc n)
  show ?case
  proof (cases i)
    case 0
    with Suc.prems show ?thesis by simp
  next
    case (Suc i')
    from Suc.prems Suc have here: "env k = Refused False"
      by (metis add.right_neutral zero_less_Suc)
    have later: "\<forall>j<i'. env (Suc k + j) = Refused False"
      using Suc.prems(3) Suc by (metis Suc_less_eq add_Suc_shift)
    have "connect_loop n env (Suc k) (tr @ [Print retry_notice, Sleep 5]) =
            (Inr sock, Suc (Suc k + i'),
             (tr @ [Print retry_notice, Sleep 5]) @ concat (replicate i' [Print retry_notice, Sleep 5]))"
      using Suc.prems Suc later by (intro Suc.IH) simp_all
    with here Suc show ?thesis by simp
  qed
qed

lemma connect_loop_attempts: "fst (snd (connect_loop n env k tr)) \<le> k + n"
proof (induction n arbitrary: k tr)
  case 0
  then show ?case by simp
next
  case (Suc n)
  show ?case
    using Suc.IH [of "Suc k" "tr @ [Print retry_notice, Sleep 5]"]
    by (simp split: conn_result.splits)
qed

text \<open>
  C6. When every attempt is refused (and the user does not interrupt a wait),
  \<open>__connect_to_server\<close> makes 5 attempts, prints the notice and sleeps 5 seconds after
  each of them, and raises \<open>socket.error\<close> with the message "Nao foi possivel conectar
  ao servidor. Tente reiniciar o cliente." (with U+00E3 and U+00ED in the source). When
  attempt \<open>i\<close> of the first 5 is the first to succeed, its socket is returned after
  \<open>i\<close> waits. In no case is there a sixth attempt.
\<close>

theorem connect_to_server_attempts:
  fixes env :: "nat \<Rightarrow> conn_result"
  defines "run \<equiv> (connect_to_server env :: (error + nat) \<times> nat \<times> 'n event list)"
  defines "notice \<equiv> Print ''Erro ao conectar ao servidor. Tentando novamente em 5 segundos.''"
  defines "failure \<equiv> SocketError (''N'' @ [CHR 0xE3] @ ''o foi poss'' @ [CHR 0xED]
                                   @ ''vel conectar ao servidor. Tente reiniciar o cliente.'')"
  shows
  "((\<forall>i<5. env i = Refused False) \<longrightarrow>
      run = (Inl failure, 5, concat (replicate 5 [notice, Sleep 5]))) \<and>
   (i < 5 \<and> env i = Connected sock \<and> (\<forall>j<i. env j = Refused False) \<longrightarrow>
      run = (Inr sock, Suc i, concat (replicate i [notice, Sleep 5]))) \<and>
   fst (snd run) \<le> 5"
proof (intro conjI impI)
  assume "\<forall>i<5. env i = Refused False"
  then have "\<forall>i<5. env (0 + i) = Refused False" by simp
  from connect_loop_all_refused [OF this, of "[]"]
  show "run = (Inl failure, 5, concat (replicate 5 [notice, Sleep 5]))"
    by (simp add: run_def connect_to_server_def notice_def failure_def retry_notice_def
        restart_client_message_def)
next
  assume a: "i < 5 \<and> env i = Connected sock \<and> (\<forall>j<i. env j = Refused False)"
  then have "i < 5" "env (0 + i) = Connected sock" "\<forall>j<i. env (0 + j) = Refused False"
    by simp_all
  from connect_loop_first_success [OF this, of "[]"]
  show "run = (Inr sock, Suc i, concat (replicate i [notice, Sleep 5]))"
    by (simp add: run_def connect_to_server_def notice_def retry_notice_def)
next
  show "fst (snd run) \<le> 5"
    using connect_loop_attempts [of 5 env 0 "[]"] by (simp add: run_def connect_to_server_def)
qed

theorem connect_to_server_attempts_witness:
  "(connect_to_server (\<lambda>k. Refused False) :: (error + nat) \<times> nat \<times> unit event list) =
     (Inl (SocketError (''N'' @ [CHR 0xE3] @ ''o foi poss'' @ [CHR 0xED]
                        @ ''vel conectar ao servidor. Tente reiniciar o cliente.'')), 5,
      [Print ''Erro ao conectar ao servidor. Tentando novamente em 5 segundos.'', Sleep 5,
       Print ''Erro ao conectar ao servidor. Tentando novamente em 5 segundos.'', Sleep 5,
       Print ''Erro ao conectar ao servidor. Tentando novamente em 5 segundos.'', Sleep 5,
       Print ''Erro ao conectar ao servidor. Tentando novamente em 5 segundos.'', Sleep 5,
       Print ''Erro ao conectar ao servidor. Tentando novamente em 5 segundos.'', Sleep 5]) \<and>
   (connect_to_server (\<lambda>k. if k < 4 then Refused False else Connected 7)
      :: (error + nat) \<times> nat \<times> unit event list) =
     (Inr 7, 5,
      [Print ''Erro ao conectar ao servidor. Tentando novamente em 5 segundos.'', Sleep 5,
       Print ''Erro ao conectar ao servidor. Tentando novamente em 5 segundos.'', Sleep 5,
       Print ''Erro ao conectar ao servidor. Tentando novamente em 5 segundos.'', Sleep 5,
       Print ''Erro ao conectar ao servidor. Tentando novamente em 5 segundos.'', Sleep 5])"
proof -
  let ?notice = "Print ''Erro ao conectar ao servidor. Tentando novamente em 5 segundos.'' :: unit event"
  have rep5: "concat (replicate 5 [?notice, Sleep 5]) =
      [?notice, Sleep 5, ?notice, Sleep 5, ?notice, Sleep 5, ?notice, Sleep 5, ?notice, Sleep 5]"
    by (simp add: numeral_eq_Suc)
  have rep4: "concat (replicate 4 [?notice, Sleep 5]) =
      [?notice, Sleep 5, ?notice, Sleep 5, ?notice, Sleep 5, ?notice, Sleep 5]"
    by (simp add: numeral_eq_Suc)
  have all: "\<forall>i<5. (\<lambda>k::nat. Refused False) i = Refused False" by simp
  have first: "(4::nat) < 5 \<and> (\<lambda>k::nat. if k < 4 then Refused False else Connected 7) 4 = Connected 7 \<and>
      (\<forall>j<4. (\<lambda>k::nat. if k < 4 then Refused False else Connected 7) j = Refused False)"
    by simp
  have fails: "connect_to_server (\<lambda>k. Refused False) =
      (Inl (SocketError (''N'' @ [CHR 0xE3] @ ''o foi poss'' @ [CHR 0xED]
                         @ ''vel conectar ao servidor. Tente reiniciar o cliente.'')), 5,
       concat (replicate 5 [?notice, Sleep 5]))"
    using connect_to_server_attempts [of "\<lambda>k. Refused False" 0 0, THEN conjunct1] all
    by (rule mp)
  have succeeds: "connect_to_server (\<lambda>k. if k < 4 then Refused False else Connected 7) =
      (Inr 7, Suc 4, concat (replicate 4 [?notice, Sleep 5]))"
    using connect_to_server_attempts
            [of "\<lambda>k. if k < 4 then Refused False else Connected 7" 4 7, THEN conjunct2, THEN conjunct1]
          first
    by (rule mp)
  show ?thesis using fails succeeds unfolding rep5 rep4 by simp
qed

subsection \<open>The continue-round exchange\<close>

lemma handle_successful_cases_frame:
  "session_kept st (snd (handle_successful_cases s x st)) \<and>
   render_error (fst (handle_successful_cases s x st))"
  by (simp add: handle_successful_cases_def Let_def session_kept_def render_error_def emit_def
      render_score_table_def secret_word_animation_def return_attempts_def
      split: option.split)

lemma handle_error_cases_frame:
  "session_kept st (snd (handle_error_cases s x st)) \<and>
   words_stack (snd (handle_error_cases s x st)) = words_stack st \<and>
   render_error (fst (handle_error_cases s x st))"
  by (simp add: handle_error_cases_def Let_def session_kept_def render_error_def emit_def
      print_with_attempts_def return_attempts_def
      split: option.split)

lemma render_response_frame:
  "session_kept st (snd (render_response s x st)) \<and>
   render_error (fst (render_response s x st))"
  using handle_successful_cases_frame [of st s x] handle_error_cases_frame [of st s x]
  by (simp add: render_response_def session_kept_def render_error_def)


lemma continue_body_raises:
  "net (length (sent st)) = Raises e \<Longrightarrow>
   continue_body net st = (Inl e, st\<lparr>sent := sent st @ [(''continue_game'', None)]\<rparr>)"
  by (simp add: continue_body_def send_requisition_def)

lemma continue_body_received:
  "net (length (sent st)) = Received d \<Longrightarrow>
   continue_body net st =
     (case r_status_code d of
        Absent \<Rightarrow> (Inl (KeyError ''status_code''), st\<lparr>sent := sent st @ [(''continue_game'', None)]\<rparr>)
      | Null \<Rightarrow> (Inl TypeError, st\<lparr>sent := sent st @ [(''continue_game'', None)]\<rparr>)
      | Value s \<Rightarrow> render_response s (no_extra\<lparr>x_player_name := user_name st\<rparr>)
                    (st\<lparr>sent := sent st @ [(''continue_game'', None)]\<rparr>))"
  by (simp add: continue_body_def send_requisition_def dict_item_def split: field.split)

lemma continue_body_frame:
  "game_status (snd (continue_body net st)) = game_status st \<and>
   sent (snd (continue_body net st)) = sent st @ [(''continue_game'', None)]"
proof (cases "net (length (sent st))")
  case (Raises e)
  then show ?thesis by (simp add: continue_body_raises)
next
  case (Received d)
  show ?thesis
  proof (cases "r_status_code d")
    case Absent
    with Received show ?thesis by (simp add: continue_body_received)
  next
    case Null
    with Received show ?thesis by (simp add: continue_body_received)
  next
    case (Value s)
    with Received show ?thesis
      using render_response_frame
        [of "st\<lparr>sent := sent st @ [(''continue_game'', None)]\<rparr>" s "no_extra\<lparr>x_player_name := user_name st\<rparr>"]
      by (simp add: continue_body_received session_kept_def)
  qed
qed

lemma continue_body_not_caught:
  assumes "\<not> retryable (net (length (sent st)))"
  shows "fst (continue_body net st) \<noteq> Inl OSError \<and> fst (continue_body net st) \<noteq> Inl JSONDecodeError"
proof (cases "net (length (sent st))")
  case (Raises e)
  with assms show ?thesis by (simp add: continue_body_raises retryable_def)
next
  case (Received d)
  show ?thesis
  proof (cases "r_status_code d")
    case Absent
    with Received show ?thesis by (simp add: continue_body_received)
  next
    case Null
    with Received show ?thesis by (simp add: continue_body_received)
  next
    case (Value s)
    with Received show ?thesis
      using render_response_frame
        [of "st\<lparr>sent := sent st @ [(''continue_game'', None)]\<rparr>" s "no_extra\<lparr>x_player_name := user_name st\<rparr>"]
      by (auto simp: continue_body_received render_error_def)
  qed
qed

lemma continue_loop_retry:
  assumes "retryable (net (length (sent st)))"
  shows "continue_loop (Suc n) net st =
           continue_loop n net
             (emit (Print (diagnostic (net (length (sent st)))))
                (st\<lparr>sent := sent st @ [(''continue_game'', None)]\<rparr>))"
proof -
  from assms obtain e where e: "net (length (sent st)) = Raises e" "e = OSError \<or> e = JSONDecodeError"
    by (auto simp: retryable_def split: send_result.splits)
  then show ?thesis
    by (auto simp: continue_body_raises diagnostic_def)
qed

lemma continue_loop_stop:
  assumes "\<not> retryable (net (length (sent st)))"
  shows "continue_loop (Suc n) net st = continue_body net st"
proof -
  obtain r st' where b: "continue_body net st = (r, st')" by (cases "continue_body net st")
  with continue_body_not_caught [of net st] assms have "r \<noteq> Inl OSError" "r \<noteq> Inl JSONDecodeError"
    by simp_all
  with b show ?thesis by (cases r) auto
qed

lemma after_failures_0: "after_failures net st 0 0 = st"
  by (simp add: after_failures_def)

lemma after_failures_Suc:
  "emit (Print (diagnostic (net (length (sent (after_failures net st k k))))))
     ((after_failures net st k k)\<lparr>sent := sent (after_failures net st k k) @ [(''continue_game'', None)]\<rparr>)
   = after_failures net st (Suc k) (Suc k)"
  by (simp add: after_failures_def emit_def replicate_append_same)

lemma after_failures_send:
  "(after_failures net st k k)\<lparr>sent := sent (after_failures net st k k) @ [(''continue_game'', None)]\<rparr>
   = after_failures net st k (Suc k)"
  by (simp add: after_failures_def replicate_append_same)

lemma after_failures_sent_length:
  "length (sent (after_failures net st k j)) = length (sent st) + j"
  by (simp add: after_failures_def)

lemma continue_loop_failures:
  "k \<le> n \<Longrightarrow> (\<forall>i<k. retryable (net (length (sent st) + i))) \<Longrightarrow>
   continue_loop n net st = continue_loop (n - k) net (after_failures net st k k)"
proof (induction k)
  case 0
  then show ?case by (simp add: after_failures_0)
next
  case (Suc k)
  then have IH: "continue_loop n net st = continue_loop (n - k) net (after_failures net st k k)"
    by simp
  have n: "n - k = Suc (n - Suc k)" using Suc.prems by simp
  have "retryable (net (length (sent (after_failures net st k k))))"
    using Suc.prems by (simp add: after_failures_sent_length)
  then have "continue_loop (Suc (n - Suc k)) net (after_failures net st k k) =
      continue_loop (n - Suc k) net (after_failures net st (Suc k) (Suc k))"
    by (simp only: continue_loop_retry after_failures_Suc)
  then show ?case unfolding IH n by simp
qed

lemma continue_loop_game_status:
  "game_status (snd (continue_loop n net st)) = game_status st"
proof (induction n arbitrary: st)
  case 0
  then show ?case by (simp add: emit_def)
next
  case (Suc n)
  show ?case
  proof (cases "retryable (net (length (sent st)))")
    case True
    then show ?thesis by (simp add: continue_loop_retry Suc.IH emit_def del: continue_loop.simps)
  next
    case False
    then show ?thesis by (simp add: continue_loop_stop continue_body_frame del: continue_loop.simps)
  qed
qed

lemma continue_loop_sent:
  "\<exists>j\<le>n. sent (snd (continue_loop n net st)) = sent st @ replicate j (''continue_game'', None) \<and>
          (0 < n \<longrightarrow> 0 < j)"
proof (induction n arbitrary: st)
  case 0
  then show ?case by (simp add: emit_def)
next
  case (Suc n)
  show ?case
  proof (cases "retryable (net (length (sent st)))")
    case True
    let ?st1 = "emit (Print (diagnostic (net (length (sent st)))))
                  (st\<lparr>sent := sent st @ [(''continue_game'', None)]\<rparr>)"
    from Suc.IH [of ?st1] obtain j where j: "j \<le> n"
      "sent (snd (continue_loop n net ?st1)) = sent ?st1 @ replicate j (''continue_game'', None)"
      by blast
    have "sent ?st1 @ replicate j (''continue_game'', None) =
          sent st @ replicate (Suc j) (''continue_game'', None)"
      by (simp add: emit_def)
    with j True show ?thesis
      by (intro exI [of _ "Suc j"]) (simp add: continue_loop_retry del: continue_loop.simps replicate.simps)
  next
    case False
    then show ?thesis
      by (intro exI [of _ 1]) (simp add: continue_loop_stop continue_body_frame del: continue_loop.simps)
  qed
qed

text \<open>
  C5. \<open>__game_continued_action\<close> sends \<open>continue_game\<close> at least once and at most 3
  times. Each request that fails with \<open>OSError\<close> or \<open>JSONDecodeError\<close> prints its
  diagnostic and is followed by the next attempt; the first request with another
  outcome ends the exchange, and a response with a status code is rendered with the
  nickname. After 3 failures the message recommending a restart is printed. In every
  case the status of the game is what it was.
\<close>

theorem game_continued_action_retries:
  fixes net :: "nat \<Rightarrow> 'n send_result" and st :: "'n client"
  defines "n0 \<equiv> length (sent st)"
  defines "run \<equiv> game_continued_action net st"
  shows
  "game_status (snd run) = game_status st \<and>
   (\<exists>j. 1 \<le> j \<and> j \<le> 3 \<and> sent (snd run) = sent st @ replicate j (''continue_game'', None)) \<and>
   (k < 3 \<and> (\<forall>i<k. retryable (net (n0 + i))) \<and> \<not> retryable (net (n0 + k)) \<longrightarrow>
      run = continue_body net (after_failures net st k k) \<and>
      sent (snd run) = sent st @ replicate (Suc k) (''continue_game'', None)) \<and>
   (k < 3 \<and> (\<forall>i<k. retryable (net (n0 + i))) \<and> net (n0 + k) = Received d \<and>
    r_status_code d = Value s \<longrightarrow>
      run = render_response s (no_extra\<lparr>x_player_name := user_name st\<rparr>)
              (after_failures net st k (Suc k))) \<and>
   ((\<forall>i<3. retryable (net (n0 + i))) \<longrightarrow>
      run = (Inr (), emit (Print ''Ocorreu um erro ao continuar o jogo. Por favor, considere reiniciar'')
                       (after_failures net st 3 3)))"
proof (intro conjI impI)
  show "game_status (snd run) = game_status st"
    by (simp add: run_def game_continued_action_def continue_loop_game_status)
next
  from continue_loop_sent [of 3 net st]
  show "\<exists>j. 1 \<le> j \<and> j \<le> 3 \<and> sent (snd run) = sent st @ replicate j (''continue_game'', None)"
    unfolding run_def game_continued_action_def by (metis One_nat_def Suc_leI zero_less_numeral)
next
  assume a: "k < 3 \<and> (\<forall>i<k. retryable (net (n0 + i))) \<and> \<not> retryable (net (n0 + k))"
  then have k: "k \<le> 3" and f: "\<forall>i<k. retryable (net (length (sent st) + i))"
    and stop: "\<not> retryable (net (length (sent (after_failures net st k k))))"
    by (simp_all add: n0_def after_failures_sent_length)
  from a have n: "3 - k = Suc (2 - k)" by arith
  show b: "run = continue_body net (after_failures net st k k)"
    unfolding run_def game_continued_action_def continue_loop_failures [OF k f] n
    using stop by (rule continue_loop_stop)
  show "sent (snd run) = sent st @ replicate (Suc k) (''continue_game'', None)"
    unfolding b by (simp add: continue_body_frame after_failures_def replicate_append_same)
next
  assume a: "k < 3 \<and> (\<forall>i<k. retryable (net (n0 + i))) \<and> net (n0 + k) = Received d \<and>
    r_status_code d = Value s"
  then have k: "k \<le> 3" and f: "\<forall>i<k. retryable (net (length (sent st) + i))"
    and rec: "net (length (sent (after_failures net st k k))) = Received d"
    by (simp_all add: n0_def after_failures_sent_length)
  then have stop: "\<not> retryable (net (length (sent (after_failures net st k k))))"
    by (simp add: retryable_def)
  from a have n: "3 - k = Suc (2 - k)" by arith
  have "run = continue_body net (after_failures net st k k)"
    unfolding run_def game_continued_action_def continue_loop_failures [OF k f] n
    using stop by (rule continue_loop_stop)
  also have "\<dots> = render_response s (no_extra\<lparr>x_player_name := user_name st\<rparr>)
              (after_failures net st k (Suc k))"
    using a continue_body_received [of net "after_failures net st k k" d] rec
    by (simp add: after_failures_send) (simp add: after_failures_def)
  finally show "run = render_response s (no_extra\<lparr>x_player_name := user_name st\<rparr>)
              (after_failures net st k (Suc k))" .
next
  assume "\<forall>i<3. retryable (net (n0 + i))"
  then have f: "\<forall>i<3. retryable (net (length (sent st) + i))" by (simp add: n0_def)
  have "(3::nat) \<le> 3" by simp
  from continue_loop_failures [OF this f]
  show "run = (Inr (), emit (Print ''Ocorreu um erro ao continuar o jogo. Por favor, considere reiniciar'')
                       (after_failures net st 3 3))"
    by (simp add: run_def game_continued_action_def)
qed


theorem game_continued_action_retries_witness:
  "game_continued_action
     (\<lambda>i. if i = 0 then Raises OSError else if i = 1 then Raises JSONDecodeError
          else Received \<lparr>r_status_code = Value 206, r_remaining_attempts = Absent,
                          r_word_encoded = Absent, r_secret_word = Absent,
                          r_rounds_scores = Absent, r_total_score = Absent\<rparr>)
     (init_client ''ana'' [] :: unit client) =
     (Inr (),
      \<lparr>game_status = NO_GAME, user_name = Some ''ana'', words_stack = [], scores_fields = [], sock_closed = False,
       stdin = [],
       sent = [(''continue_game'', None), (''continue_game'', None), (''continue_game'', None)],
       out = [Print ''Ocorreu um erro ao enviar ou receber dados pelo socket.'',
              Print ''Ocorreu um erro ao decodificar a resposta do servidor.'',
              Print (''Jogo Continuado com Sucesso, Boa Sorte na Pr'' @ [CHR 0xF3]
                     @ ''xima Rodada ana!'')]\<rparr>) \<and>
   game_continued_action (\<lambda>i. Raises OSError) (init_client ''ana'' [] :: unit client) =
     (Inr (),
      \<lparr>game_status = NO_GAME, user_name = Some ''ana'', words_stack = [], scores_fields = [], sock_closed = False,
       stdin = [],
       sent = [(''continue_game'', None), (''continue_game'', None), (''continue_game'', None)],
       out = [Print ''Ocorreu um erro ao enviar ou receber dados pelo socket.'',
              Print ''Ocorreu um erro ao enviar ou receber dados pelo socket.'',
              Print ''Ocorreu um erro ao enviar ou receber dados pelo socket.'',
              Print ''Ocorreu um erro ao continuar o jogo. Por favor, considere reiniciar'']\<rparr>)"
proof -
  let ?d = "\<lparr>r_status_code = Value 206, r_remaining_attempts = Absent, r_word_encoded = Absent,
             r_secret_word = Absent, r_rounds_scores = Absent, r_total_score = Absent\<rparr> :: unit response"
  let ?net = "\<lambda>i::nat. if i = 0 then Raises OSError else if i = 1 then Raises JSONDecodeError
                       else Received ?d"
  let ?fail = "\<lambda>i::nat. Raises OSError :: unit send_result"
  let ?st = "init_client ''ana'' [] :: unit client"
  have up2: "[0..<2] = [0, 1]" and up3: "[0..<3] = [0, 1, 2]"
    by (simp_all add: upt_conv_Cons)
  have rep3: "replicate 3 x = [x, x, x]" for x :: "string \<times> string option"
    by (simp add: numeral_3_eq_3)
  have h1: "(2::nat) < 3 \<and> (\<forall>i<2. retryable (?net (length (sent ?st) + i))) \<and>
            ?net (length (sent ?st) + 2) = Received ?d \<and> r_status_code ?d = Value 206"
    by (auto simp: retryable_def init_client_def less_Suc_eq numeral_2_eq_2)
  have h2: "\<forall>i<3. retryable (?fail (length (sent ?st) + i))"
    by (simp add: retryable_def)
  have a: "game_continued_action ?net ?st =
      render_response 206 (no_extra\<lparr>x_player_name := user_name ?st\<rparr>) (after_failures ?net ?st 2 (Suc 2))"
    using game_continued_action_retries [where net = ?net and st = ?st and k = 2 and d = ?d and s = 206,
        THEN conjunct2, THEN conjunct2, THEN conjunct2, THEN conjunct1] h1
    by (rule mp)
  have b: "game_continued_action ?fail ?st =
      (Inr (), emit (Print ''Ocorreu um erro ao continuar o jogo. Por favor, considere reiniciar'')
                 (after_failures ?fail ?st 3 3))"
    using game_continued_action_retries [where net = ?fail and st = ?st and k = 0 and d = ?d and s = 206,
        THEN conjunct2, THEN conjunct2, THEN conjunct2, THEN conjunct2] h2
    by (rule mp)
  have a': "render_response 206 (no_extra\<lparr>x_player_name := user_name ?st\<rparr>)
              (after_failures ?net ?st 2 (Suc 2)) =
     (Inr (),
      \<lparr>game_status = NO_GAME, user_name = Some ''ana'', words_stack = [], scores_fields = [], sock_closed = False,
       stdin = [],
       sent = [(''continue_game'', None), (''continue_game'', None), (''continue_game'', None)],
       out = [Print ''Ocorreu um erro ao enviar ou receber dados pelo socket.'',
              Print ''Ocorreu um erro ao decodificar a resposta do servidor.'',
              Print (''Jogo Continuado com Sucesso, Boa Sorte na Pr'' @ [CHR 0xF3]
                     @ ''xima Rodada ana!'')]\<rparr>)"
    by (simp add: render_response_def handle_successful_cases_def Let_def no_extra_def
        after_failures_def init_client_def emit_def diagnostic_def str_opt_def up2 numeral_2_eq_2)
  have b': "emit (Print ''Ocorreu um erro ao continuar o jogo. Por favor, considere reiniciar'')
                 (after_failures ?fail ?st 3 3) =
      \<lparr>game_status = NO_GAME, user_name = Some ''ana'', words_stack = [], scores_fields = [], sock_closed = False,
       stdin = [],
       sent = [(''continue_game'', None), (''continue_game'', None), (''continue_game'', None)],
       out = [Print ''Ocorreu um erro ao enviar ou receber dados pelo socket.'',
              Print ''Ocorreu um erro ao enviar ou receber dados pelo socket.'',
              Print ''Ocorreu um erro ao enviar ou receber dados pelo socket.'',
              Print ''Ocorreu um erro ao continuar o jogo. Por favor, considere reiniciar'']\<rparr>"
    by (simp add: after_failures_def init_client_def emit_def diagnostic_def up3 rep3)
  show ?thesis unfolding a b a' b' by simp
qed

subsection \<open>An incorrect guess and the end of the round\<close>

text \<open>What a method prints is added after what the terminal already shows.\<close>

declare end_game_option_loop.simps [simp del]




















subsection \<open>The word history across an exit\<close>

text \<open>
  Restart (205), and win (202) and loss (203 with no attempt left) when they render
  without an exception, leave the word history empty.
\<close>

lemma round_boundaries_clear_word_history:
  "words_stack (snd (handle_successful_cases 205 x st)) = [] \<and>
   (fst (handle_successful_cases 202 x st) = Inr () \<longrightarrow>
      words_stack (snd (handle_successful_cases 202 x st)) = []) \<and>
   (x_remaining_attempts x = Some 0 \<and> fst (handle_successful_cases 203 x st) = Inr () \<longrightarrow>
      words_stack (snd (handle_successful_cases 203 x st)) = [])"
  by (simp add: handle_successful_cases_def Let_def emit_def clear_def
      render_score_table_def secret_word_animation_def return_attempts_def
      split: option.split)

text \<open>
  C2 fails on the code at the exit. A session of five passes of the loop of \<open>run\<close>: start
  (200), one incorrect guess with 5 attempts left (203), exit (201), start again (200),
  list words (204). After the exit the status is \<open>NO_GAME\<close> and the word history
  still holds the guess: status 201 sets the status and does not clear the stack. In
  the next game the list of the words "typed in this round" shows that guess.
\<close>

theorem exit_keeps_word_history:
  fixes net :: "nat \<Rightarrow> unit send_result" and st0 st1 st2 st3 st4 st5 :: "unit client"
  defines "net \<equiv> \<lambda>k.
     Received \<lparr>r_status_code = Value (if k = 0 then 200 else if k = 1 then 203
                                     else if k = 2 then 201 else if k = 3 then 200 else 204),
               r_remaining_attempts = (if k = 1 then Value 5 else Absent),
               r_word_encoded = (if k = 1 then Value [0, 1, 2, 0, 0] else Absent),
               r_secret_word = Absent, r_rounds_scores = Absent, r_total_score = Absent\<rparr>"
  defines "st0 \<equiv> init_client ''ana'' [''1'', ''3'', ''TESTE'', ''2'', ''1'', ''4'']"
  defines "st1 \<equiv> snd (run_iteration net st0)"
  defines "st2 \<equiv> snd (run_iteration net st1)"
  defines "st3 \<equiv> snd (run_iteration net st2)"
  defines "st4 \<equiv> snd (run_iteration net st3)"
  defines "st5 \<equiv> snd (run_iteration net st4)"
  shows "game_status st2 = GAME_IN_PROGRESS \<and>
         words_stack st2 = [Some (esc ''90m'' @ ''t'' @ esc ''0m'' @ esc ''93m'' @ ''e'' @ esc ''0m''
                                  @ esc ''92m'' @ ''s'' @ esc ''0m'' @ esc ''90m'' @ ''t'' @ esc ''0m''
                                  @ esc ''90m'' @ ''e'' @ esc ''0m'')] \<and>
         game_status st3 = NO_GAME \<and> words_stack st3 = words_stack st2 \<and>
         sent st5 = [(''start_game'', Some ''ana''), (''check_word'', Some ''teste''),
                     (''exit_game'', None), (''start_game'', Some ''ana''), (''list_words'', None)] \<and>
         game_status st5 = GAME_IN_PROGRESS \<and>
         last (out st5) = PrintWordList (words_stack st2)"
proof -
  note defs = run_iteration_def run_body_def render_menu_table_def emit_def input_py_def
        process_user_command_def send_requisition_def handle_response_status_def
        render_response_def handle_successful_cases_def no_extra_def Let_def
        dict_get_def dict_item_def
  have lw: "lower ''TESTE'' = ''teste''" by code_simp
  have col: "format_output (Some ''teste'') (Some [0, 1, 2, 0, 0]) =
      Inr (Some (esc ''90m'' @ ''t'' @ esc ''0m'' @ esc ''93m'' @ ''e'' @ esc ''0m''
                 @ esc ''92m'' @ ''s'' @ esc ''0m'' @ esc ''90m'' @ ''t'' @ esc ''0m''
                 @ esc ''90m'' @ ''e'' @ esc ''0m''))"
    by (simp add: format_output_def wrap_letter_def)
  have s1: "game_status st1 = GAME_IN_PROGRESS \<and> words_stack st1 = [] \<and>
            stdin st1 = [''3'', ''TESTE'', ''2'', ''1'', ''4''] \<and> user_name st1 = Some ''ana'' \<and>
            sent st1 = [(''start_game'', Some ''ana'')]"
    unfolding st1_def st0_def net_def by (simp add: defs init_client_def)
  have s2: "game_status st2 = GAME_IN_PROGRESS \<and>
            words_stack st2 = [Some (esc ''90m'' @ ''t'' @ esc ''0m'' @ esc ''93m'' @ ''e'' @ esc ''0m''
                                  @ esc ''92m'' @ ''s'' @ esc ''0m'' @ esc ''90m'' @ ''t'' @ esc ''0m''
                                  @ esc ''90m'' @ ''e'' @ esc ''0m'')] \<and>
            stdin st2 = [''2'', ''1'', ''4''] \<and> user_name st2 = Some ''ana'' \<and>
            sent st2 = [(''start_game'', Some ''ana''), (''check_word'', Some ''teste'')]"
    unfolding st2_def net_def using s1 lw col
    by (simp add: defs return_attempts_def stack_up_def)
  have s3: "game_status st3 = NO_GAME \<and> words_stack st3 = words_stack st2 \<and>
            stdin st3 = [''1'', ''4''] \<and> user_name st3 = Some ''ana'' \<and>
            sent st3 = [(''start_game'', Some ''ana''), (''check_word'', Some ''teste''),
                        (''exit_game'', None)]"
    unfolding st3_def net_def using s2 by (simp add: defs)
  have s4: "game_status st4 = GAME_IN_PROGRESS \<and> words_stack st4 = words_stack st2 \<and>
            stdin st4 = [''4''] \<and> user_name st4 = Some ''ana'' \<and>
            sent st4 = [(''start_game'', Some ''ana''), (''check_word'', Some ''teste''),
                        (''exit_game'', None), (''start_game'', Some ''ana'')]"
    unfolding st4_def net_def using s3 by (simp add: defs)
  have s5: "game_status st5 = GAME_IN_PROGRESS \<and>
            last (out st5) = PrintWordList (words_stack st2) \<and>
            sent st5 = [(''start_game'', Some ''ana''), (''check_word'', Some ''teste''),
                        (''exit_game'', None), (''start_game'', Some ''ana''), (''list_words'', None)]"
    unfolding st5_def net_def using s4 s2 by (simp add: defs)
  from s2 s3 s5 show ?thesis by simp
qed

end
